theory Spec2Isabelle
  imports Main "HOL-Library.Word"
begin

section \<open>Python values used by the TFTP server\<close>

text \<open>
  The model follows \<^verbatim>\<open>src/tftp/server.py\<close>. A Python \<^verbatim>\<open>bytes\<close> object is a list of
  8-bit words, a Python \<^verbatim>\<open>str\<close> is the list of its Unicode code points, a Python
  \<^verbatim>\<open>int\<close> is a natural number or an integer. Every exception the code can raise is a
  value of \<open>exn\<close>; a function that can raise returns \<open>exn + 'a\<close>, with \<open>Inl\<close> for the
  exception in flight. The exceptions that the handlers turn into an Error packet carry
  their message, which is what \<^verbatim>\<open>str(ex)\<close> returns.
\<close>

type_synonym byte = "8 word"
type_synonym bytes = "byte list"
type_synonym pystr = "nat list"
type_synonym address = "string \<times> nat"

datatype exn =
    UnknownOpcodeException pystr
  | UnknownErrorCodeException pystr
  | IllegalOperationException pystr
  | UnknownModeException pystr
  | MalformedPacketException pystr
  | EmptyPathException pystr
  | FileNotFoundException pystr
  | AttributeError
  | NameError
  | TypeError
  | KeyError
  | OverflowError
  | UnicodeDecodeError
  | UnicodeEncodeError
  | SocketTimeout
  | OtherError pystr

text \<open>A value passed where the code does not fix its type (\<^verbatim>\<open>data\<close> starts as \<^verbatim>\<open>None\<close>).\<close>

datatype pyval = PNone | PInt int | PBytes bytes

text \<open>A string literal of the source, as code points.\<close>

definition str :: "string \<Rightarrow> pystr" where
  "str cs = map of_char cs"

text \<open>\<^verbatim>\<open>'{}'.format(n)\<close> for a non-negative integer: its decimal digits.\<close>

fun format_nat :: "nat \<Rightarrow> pystr" where
  "format_nat n = (if n < 10 then [48 + n] else format_nat (n div 10) @ [48 + n mod 10])"

declare format_nat.simps [simp del]

text \<open>The text between single quotes, as the messages of the source have it.\<close>

definition quoted :: "pystr \<Rightarrow> pystr" where
  "quoted t = [39] @ t @ [39]"

text \<open>\<^verbatim>\<open>int.from_bytes(b, 'big')\<close>: the empty sequence gives 0.\<close>

definition from_bytes_big :: "bytes \<Rightarrow> nat" where
  "from_bytes_big bs = foldl (\<lambda>a b. 256 * a + unat b) 0 bs"

text \<open>\<^verbatim>\<open>n.to_bytes(2, 'big')\<close>: OverflowError when the value needs more than two bytes.\<close>

definition to_bytes_2_big :: "nat \<Rightarrow> exn + bytes" where
  "to_bytes_2_big n =
     (if n < 65536 then Inr [of_nat (n div 256), of_nat (n mod 256)] else Inl OverflowError)"

text \<open>\<^verbatim>\<open>bytes(msg, 'ascii')\<close>: UnicodeEncodeError at a code point above 127.\<close>

definition encode_ascii :: "pystr \<Rightarrow> exn + bytes" where
  "encode_ascii t = (if list_all (\<lambda>c. c < 128) t then Inr (map of_nat t) else Inl UnicodeEncodeError)"

text \<open>
  \<^verbatim>\<open>b.decode('utf-8')\<close>, the strict decoder: shortest form only, no surrogates, nothing
  above U+10FFFF. \<open>None\<close> stands for UnicodeDecodeError.
\<close>

definition cont :: "nat \<Rightarrow> bool" where
  "cont b = (128 \<le> b \<and> b < 192)"

fun utf8 :: "nat list \<Rightarrow> pystr option" where
  "utf8 [] = Some []"
| "utf8 (b0 # bs) =
     (if b0 < 128 then map_option ((#) b0) (utf8 bs)
      else if 194 \<le> b0 \<and> b0 < 224 then
        (case bs of
           b1 # r \<Rightarrow>
             if cont b1 then map_option ((#) ((b0 - 192) * 64 + (b1 - 128))) (utf8 r)
             else None
         | _ \<Rightarrow> None)
      else if 224 \<le> b0 \<and> b0 < 240 then
        (case bs of
           b1 # b2 # r \<Rightarrow>
             if cont b1 \<and> cont b2
                \<and> (if b0 = 224 then 160 \<le> b1 else if b0 = 237 then b1 < 160 else True)
             then map_option ((#) ((b0 - 224) * 4096 + (b1 - 128) * 64 + (b2 - 128))) (utf8 r)
             else None
         | _ \<Rightarrow> None)
      else if 240 \<le> b0 \<and> b0 < 245 then
        (case bs of
           b1 # b2 # b3 # r \<Rightarrow>
             if cont b1 \<and> cont b2 \<and> cont b3
                \<and> (if b0 = 240 then 144 \<le> b1 else if b0 = 244 then b1 < 144 else True)
             then map_option
                    ((#) ((b0 - 240) * 262144 + (b1 - 128) * 4096 + (b2 - 128) * 64 + (b3 - 128)))
                    (utf8 r)
             else None
         | _ \<Rightarrow> None)
      else None)"

definition decode_utf8 :: "bytes \<Rightarrow> exn + pystr" where
  "decode_utf8 bs = (case utf8 (map unat bs) of None \<Rightarrow> Inl UnicodeDecodeError | Some t \<Rightarrow> Inr t)"

text \<open>
  \<^verbatim>\<open>t.upper()\<close> maps every code point to its full upper-case mapping. The ASCII part is
  written out; the mapping of the other code points is the interpreter's Unicode table,
  which is the parameter \<open>U\<close>.
\<close>

definition upper_cp :: "(nat \<Rightarrow> pystr) \<Rightarrow> nat \<Rightarrow> pystr" where
  "upper_cp U c = (if 97 \<le> c \<and> c \<le> 122 then [c - 32] else if c < 128 then [c] else U c)"

definition upper :: "(nat \<Rightarrow> pystr) \<Rightarrow> pystr \<Rightarrow> pystr" where
  "upper U t = concat (map (upper_cp U) t)"

text \<open>\<^verbatim>\<open>packet.find(0, s)\<close>: the index of the first zero byte at or after \<open>s\<close>, or -1.\<close>

fun find_from :: "bytes \<Rightarrow> nat \<Rightarrow> nat option" where
  "find_from [] i = None"
| "find_from (b # bs) i = (if b = 0 then Some i else find_from bs (Suc i))"

definition find0 :: "bytes \<Rightarrow> nat \<Rightarrow> int" where
  "find0 packet s = (case find_from (drop s packet) s of None \<Rightarrow> - 1 | Some i \<Rightarrow> int i)"

text \<open>
  \<^verbatim>\<open>xs[s:e]\<close> with Python's rules: a negative bound counts from the end, every bound is
  clamped to the sequence, and a start at or after the stop gives the empty sequence.
\<close>

definition clamp_index :: "int \<Rightarrow> nat \<Rightarrow> nat" where
  "clamp_index i n = (if i < 0 then nat (max 0 (i + int n)) else min (nat i) n)"

definition py_slice :: "'a list \<Rightarrow> int \<Rightarrow> int \<Rightarrow> 'a list" where
  "py_slice xs s e =
     (let a = clamp_index s (length xs); b = clamp_index e (length xs)
      in take (b - a) (drop a xs))"

section \<open>The tables\<close>

text \<open>
  \<^verbatim>\<open>Opcodes\<close> and \<^verbatim>\<open>Errors\<close> are dictionaries with both the names and the numbers as keys.
  The numbers reached through a name are the constants below; the part keyed by numbers
  is a map. A number is \<^verbatim>\<open>in Opcodes\<close> when that map has it.
\<close>

definition RRQ :: nat where "RRQ = 1"
definition WRQ :: nat where "WRQ = 2"
definition DATA :: nat where "DATA = 3"
definition ACK :: nat where "ACK = 4"
definition ERROR :: nat where "ERROR = 5"

definition Opcodes :: "nat \<rightharpoonup> pystr" where
  "Opcodes = map_of
     [(1, str ''RRQ''), (2, str ''WRQ''), (3, str ''DATA''), (4, str ''ACK''), (5, str ''ERROR'')]"

definition NOT_DEFINED :: nat where "NOT_DEFINED = 0"
definition FILE_NOT_FOUND :: nat where "FILE_NOT_FOUND = 1"
definition ACCESS_VIOLATION :: nat where "ACCESS_VIOLATION = 2"
definition ALLOCATION_EXCEEDED :: nat where "ALLOCATION_EXCEEDED = 3"
definition ILLEGAL_OPERATION :: nat where "ILLEGAL_OPERATION = 4"
definition UNKNOWN_TRANSFER_ID :: nat where "UNKNOWN_TRANSFER_ID = 5"
definition FILE_EXISTS :: nat where "FILE_EXISTS = 6"
definition NO_SUCH_USER :: nat where "NO_SUCH_USER = 7"

definition Errors :: "nat \<rightharpoonup> pystr" where
  "Errors = map_of
     [(0, str ''NOT_DEFINED''), (1, str ''FILE_NOT_FOUND''), (2, str ''ACCESS_VIOLATION''),
      (3, str ''ALLOCATION_EXCEEDED''), (4, str ''ILLEGAL_OPERATION''),
      (5, str ''UNKNOWN_TRANSFER_ID''), (6, str ''FILE_EXISTS''), (7, str ''NO_SUCH_USER'')]"

text \<open>The keys of \<^verbatim>\<open>Modes\<close>.\<close>

definition Modes :: "pystr list" where
  "Modes = [str ''OCTET'', str ''NETASCII'', str ''MAIL'']"

text \<open>\<^verbatim>\<open>Opcodes[c]\<close> for a number \<open>c\<close>.\<close>

definition Opcodes_item :: "nat \<Rightarrow> exn + pystr" where
  "Opcodes_item c = (case Opcodes c of None \<Rightarrow> Inl KeyError | Some name \<Rightarrow> Inr name)"

section \<open>The packet codec\<close>

definition unpackOpcode :: "bytes \<Rightarrow> exn + nat" where
  "unpackOpcode packet =
     (let c = from_bytes_big (take 2 packet)
      in if Opcodes c = None
         then Inl (UnknownOpcodeException (str ''Unknown Opcode '' @ quoted (format_nat c)))
         else Inr c)"

definition packERROR :: "nat \<Rightarrow> pystr \<Rightarrow> exn + bytes" where
  "packERROR code msg =
     (if Errors code = None
      then Inl (UnknownErrorCodeException (str ''Unknown error code '' @ quoted (format_nat code)))
      else
        case to_bytes_2_big ERROR of Inl ex \<Rightarrow> Inl ex
        | Inr b1 \<Rightarrow>
            (case to_bytes_2_big code of Inl ex \<Rightarrow> Inl ex
             | Inr b2 \<Rightarrow>
                 (case encode_ascii msg of Inl ex \<Rightarrow> Inl ex
                  | Inr b3 \<Rightarrow> Inr (b1 @ b2 @ b3 @ [0]))))"

text \<open>
  \<^verbatim>\<open>packDATA\<close> creates a bytearray and calls \<^verbatim>\<open>b.extebd(...)\<close> on it (line 87). A bytearray
  has no attribute of that name, so the attribute lookup raises AttributeError before
  anything is appended, whatever the arguments are.
\<close>

definition packDATA :: "pyval \<Rightarrow> pyval \<Rightarrow> exn + bytes" where
  "packDATA data blockNum = Inl AttributeError"

definition unpackDATA :: "bytes \<Rightarrow> exn + (nat \<times> nat \<times> bytes)" where
  "unpackDATA packet =
     (case unpackOpcode packet of Inl ex \<Rightarrow> Inl ex
      | Inr opcode \<Rightarrow>
          if opcode \<noteq> DATA then
            (case Opcodes_item opcode of Inl ex \<Rightarrow> Inl ex
             | Inr name \<Rightarrow>
                 Inl (IllegalOperationException
                        (str ''Expected DATA packet, but got '' @ quoted name)))
          else
            let blockNum = from_bytes_big (take 2 (drop 2 packet));
                data = drop 4 packet
            in Inr (opcode, blockNum, data))"

text \<open>
  In the rejection branch of \<^verbatim>\<open>unpackRWRQ\<close> the message is built from \<^verbatim>\<open>Opcodes[c]\<close>
  (line 110), and no variable \<^verbatim>\<open>c\<close> exists in that function or in the module: the
  argument of the raise statement raises NameError, and that is the exception that leaves
  the function.
\<close>

definition unpackRWRQ :: "(nat \<Rightarrow> pystr) \<Rightarrow> bytes \<Rightarrow> exn + (nat \<times> pystr \<times> pystr)" where
  "unpackRWRQ U packet =
     (case unpackOpcode packet of Inl ex \<Rightarrow> Inl ex
      | Inr opcode \<Rightarrow>
          if opcode \<notin> set [RRQ, WRQ] then Inl NameError
          else
            let s = 2; e = find0 packet s in
            if e < int s then
              Inl (MalformedPacketException
                     (str ''Couldn'' @ [39] @ str ''t find filename termination byte''))
            else
              (case decode_utf8 (py_slice packet (int s) e) of Inl ex \<Rightarrow> Inl ex
               | Inr filename \<Rightarrow>
                   let s = nat (e + 1); e = find0 packet s in
                   if e < int s then
                     Inl (MalformedPacketException
                            (str ''Couldn'' @ [39] @ str ''t find mode termination byte''))
                   else
                     (case decode_utf8 (py_slice packet (int s) e) of Inl ex \<Rightarrow> Inl ex
                      | Inr mode \<Rightarrow>
                          if filename = [] then
                            Inl (EmptyPathException (str ''Filename cannot be empty''))
                          else if upper U mode \<notin> set Modes then
                            Inl (UnknownModeException
                                   (str ''Mode '' @ quoted mode @ str '' not recognized''))
                          else Inr (opcode, filename, upper U mode))))"

text \<open>
  \<^verbatim>\<open>unpackACK\<close> reads the block number with \<^verbatim>\<open>int.from_bytes(packet[2:4])\<close>, without a
  byte order. The model takes the interpreter's default, big-endian (Python 3.11 and
  later).
\<close>

definition unpackACK :: "bytes \<Rightarrow> exn + (nat \<times> nat)" where
  "unpackACK packet =
     (case unpackOpcode packet of Inl ex \<Rightarrow> Inl ex
      | Inr opcode \<Rightarrow>
          if opcode \<noteq> ACK then
            (case Opcodes_item opcode of Inl ex \<Rightarrow> Inl ex
             | Inr name \<Rightarrow>
                 Inl (IllegalOperationException
                        (str ''Expected ACK packet, but got '' @ quoted name)))
          else
            let blockNum = from_bytes_big (take 2 (drop 2 packet))
            in Inr (opcode, blockNum))"

text \<open>
  \<^verbatim>\<open>packACK\<close> creates a bytearray and then evaluates \<^verbatim>\<open>Opcode['ACK']\<close> (line 146). The
  table is called \<^verbatim>\<open>Opcodes\<close>; no name \<^verbatim>\<open>Opcode\<close> exists, so the call raises NameError,
  whatever the argument is.
\<close>

definition packACK :: "pyval \<Rightarrow> exn + bytes" where
  "packACK blockNum = Inl NameError"

section \<open>The socket\<close>

text \<open>
  The socket is the state the handlers share with the network: the datagrams and
  timeouts that the coming calls of \<^verbatim>\<open>recv\<close> will meet, in order, and the datagrams sent
  so far with their destinations. \<^verbatim>\<open>sendto\<close> appends to the second list. \<^verbatim>\<open>recv(n)\<close>
  takes the next event: a datagram gives its first \<open>n\<close> bytes and drops the sender's
  address, a timeout raises the socket's timeout exception. When the script of events is
  used up the call has nothing to return, and the run is \<open>Blocked\<close> there.
\<close>

datatype event = Datagram address bytes | TimedOut

record socket =
  inbox :: "event list"
  outbox :: "(bytes \<times> address) list"

datatype received = Received bytes socket | TimeoutRaised socket | NoEvent

definition sendto :: "socket \<Rightarrow> bytes \<Rightarrow> address \<Rightarrow> socket" where
  "sendto sock b address = sock\<lparr>outbox := outbox sock @ [(b, address)]\<rparr>"

definition recv :: "socket \<Rightarrow> nat \<Rightarrow> received" where
  "recv sock n =
     (case inbox sock of
        [] \<Rightarrow> NoEvent
      | TimedOut # evs \<Rightarrow> TimeoutRaised (sock\<lparr>inbox := evs\<rparr>)
      | Datagram src payload # evs \<Rightarrow> Received (take n payload) (sock\<lparr>inbox := evs\<rparr>))"

text \<open>How a handler ends: it returns, an exception leaves it, or it waits for input.\<close>

datatype outcome = Returned | Raised exn | Blocked

definition sendError :: "address \<Rightarrow> socket \<Rightarrow> bytes \<Rightarrow> socket" where
  "sendError address sock err = sendto sock err address"

definition sendData :: "address \<Rightarrow> socket \<Rightarrow> pyval \<Rightarrow> pyval \<Rightarrow> exn + socket" where
  "sendData address sock data blockNum =
     (case packDATA data blockNum of Inl ex \<Rightarrow> Inl ex
      | Inr pkt \<Rightarrow> Inr (sendto sock pkt address))"

text \<open>
  Both except clauses of the read loop name \<^verbatim>\<open>socket.Timeout\<close>. Inside \<^verbatim>\<open>handleRRQ\<close>,
  \<^verbatim>\<open>socket\<close> is the socket object passed in, which has no attribute \<^verbatim>\<open>Timeout\<close>. When
  an exception reaches such a clause the interpreter evaluates the clause's expression to
  match it, that evaluation raises AttributeError, and AttributeError is what goes on,
  whatever the exception was.
\<close>

definition except_socket_Timeout :: "exn \<Rightarrow> exn" where
  "except_socket_Timeout ex = AttributeError"

section \<open>The read session\<close>

text \<open>The local variables of the loop of \<^verbatim>\<open>handleRRQ\<close>; \<open>slice_s\<close> and \<open>slice_e\<close> are \<^verbatim>\<open>s\<close> and \<^verbatim>\<open>e\<close>.\<close>

record rrq_state =
  data :: pyval
  sendDATA :: bool
  readACK :: bool
  dataBlock :: int
  ackBlock :: int
  slice_s :: int
  slice_e :: int

definition initial :: rrq_state where
  "initial = \<lparr>data = PNone, sendDATA = False, readACK = False, dataBlock = 0, ackBlock = 0,
              slice_s = - 512, slice_e = 0\<rparr>"

datatype step = Next rrq_state socket | Stop socket outcome

text \<open>Lines 190 to 201: ready for a new DATA packet.\<close>

definition new_block :: "bytes \<Rightarrow> rrq_state \<Rightarrow> rrq_state" where
  "new_block file st =
     (if ackBlock st = dataBlock st then
        let fileSize = int (length file);
            s = slice_s st + 512;
            e = slice_e st + 512;
            e = (if e > fileSize then - 1 else e)
        in st\<lparr>dataBlock := dataBlock st + 1, slice_s := s, slice_e := e,
               data := PBytes (py_slice file s e), sendDATA := True\<rparr>
      else st)"

text \<open>
  Lines 203 to 220: sending a DATA packet. The call is
  \<^verbatim>\<open>sendData(address, socket, dataBlock, data)\<close> while the parameters of \<^verbatim>\<open>sendData\<close> are
  \<^verbatim>\<open>(address, socket, data, blockNum)\<close>: the block number arrives as the data and the data
  as the block number.
\<close>

definition send_block :: "address \<Rightarrow> rrq_state \<Rightarrow> socket \<Rightarrow> step" where
  "send_block address st sock =
     (if sendDATA st then
        (case sendData address sock (PInt (dataBlock st)) (data st) of
           Inl ex \<Rightarrow> Stop sock (Raised (except_socket_Timeout ex))
         | Inr sock' \<Rightarrow> Next (st\<lparr>sendDATA := False, readACK := True\<rparr>) sock')
      else Next st sock)"

text \<open>Lines 222 to 256: waiting for an ACK packet.\<close>

definition wait_ack :: "address \<Rightarrow> rrq_state \<Rightarrow> socket \<Rightarrow> step" where
  "wait_ack address st sock =
     (if readACK st then
        (case recv sock 1024 of
           NoEvent \<Rightarrow> Stop sock Blocked
         | TimeoutRaised sock' \<Rightarrow> Stop sock' (Raised (except_socket_Timeout SocketTimeout))
         | Received packet sock' \<Rightarrow>
             (case unpackACK packet of
                Inr (opcode, block) \<Rightarrow>
                  if int block = dataBlock st
                  then Next (st\<lparr>ackBlock := int block, readACK := False\<rparr>) sock'
                  else Next st sock'
              | Inl (IllegalOperationException msg) \<Rightarrow>
                  (case packERROR ILLEGAL_OPERATION msg of
                     Inl ex \<Rightarrow> Stop sock' (Raised (except_socket_Timeout ex))
                   | Inr err \<Rightarrow> Stop (sendError address sock' err) Returned)
              | Inl ex \<Rightarrow> Stop sock' (Raised (except_socket_Timeout ex))))
      else Next st sock)"

text \<open>Lines 258 to 263: the last block is acknowledged and no data is left.\<close>

definition finished :: "rrq_state \<Rightarrow> bool" where
  "finished st = (ackBlock st = dataBlock st \<and> slice_e st = - 1)"

text \<open>One pass through the body of the loop.\<close>

definition iteration :: "address \<Rightarrow> bytes \<Rightarrow> rrq_state \<Rightarrow> socket \<Rightarrow> step" where
  "iteration address file st sock =
     (case send_block address (new_block file st) sock of
        Stop sock1 res \<Rightarrow> Stop sock1 res
      | Next st1 sock1 \<Rightarrow>
          (case wait_ack address st1 sock1 of
             Stop sock2 res \<Rightarrow> Stop sock2 res
           | Next st2 sock2 \<Rightarrow>
               if finished st2 then Stop sock2 Returned else Next st2 sock2))"

text \<open>
  The loop \<^verbatim>\<open>while True\<close>: it ends only by a return or an exception inside the body (or,
  in the model, where the script of events ends). \<open>None\<close> is a loop that runs forever.
\<close>

partial_function (option) rrq_loop ::
  "address \<Rightarrow> bytes \<Rightarrow> rrq_state \<Rightarrow> socket \<Rightarrow> (socket \<times> outcome) option"
where
  "rrq_loop address file st sock =
     (case iteration address file st sock of
        Stop sock' res \<Rightarrow> Some (sock', res)
      | Next st' sock' \<Rightarrow> rrq_loop address file st' sock')"

text \<open>An Error packet sent as the last act of a handler (build it, send it, log it, return).\<close>

definition reply_error :: "address \<Rightarrow> socket \<Rightarrow> nat \<Rightarrow> pystr \<Rightarrow> socket \<times> outcome" where
  "reply_error address sock code msg =
     (case packERROR code msg of
        Inl ex \<Rightarrow> (sock, Raised ex)
      | Inr err \<Rightarrow> (sendError address sock err, Returned))"

text \<open>
  \<^verbatim>\<open>handleRRQ\<close>. The storage module is not part of the sources: \<open>get\<close> stands for
  \<^verbatim>\<open>storage.Storage().get\<close>, which returns the bytes of the file or raises.
\<close>

definition handleRRQ ::
  "(pystr \<Rightarrow> exn + bytes) \<Rightarrow> address \<Rightarrow> socket \<Rightarrow> pystr \<Rightarrow> pystr \<Rightarrow> (socket \<times> outcome) option"
where
  "handleRRQ get address sock filename mode =
     (case get filename of
        Inl (FileNotFoundException msg) \<Rightarrow> Some (reply_error address sock FILE_NOT_FOUND msg)
      | Inl (EmptyPathException msg) \<Rightarrow> Some (reply_error address sock FILE_NOT_FOUND msg)
      | Inl ex \<Rightarrow> Some (sock, Raised ex)
      | Inr file \<Rightarrow> rrq_loop address file initial sock)"

text \<open>
  \<^verbatim>\<open>handleWRQ\<close> passes the file name, a \<^verbatim>\<open>str\<close>, to \<^verbatim>\<open>socket.sendto\<close>, which takes bytes
  only and raises TypeError.
\<close>

definition handleWRQ :: "address \<Rightarrow> socket \<Rightarrow> pystr \<Rightarrow> pystr \<Rightarrow> (socket \<times> outcome) option" where
  "handleWRQ address sock filename mode = Some (sock, Raised TypeError)"

section \<open>The request handler\<close>

text \<open>
  Lines 275 to 297 of \<^verbatim>\<open>Handler.handle\<close>: the request is decoded, and a decoding error
  either is answered with an Error packet or leaves the handler. \<open>Session\<close> is the case
  where the handler goes on to \<^verbatim>\<open>handleRRQ\<close> or \<^verbatim>\<open>handleWRQ\<close>.
\<close>

datatype dispatch = Reply socket outcome | Session nat pystr pystr

definition decode_request :: "(nat \<Rightarrow> pystr) \<Rightarrow> address \<Rightarrow> bytes \<Rightarrow> socket \<Rightarrow> dispatch" where
  "decode_request U client_address packet sock =
     (case unpackRWRQ U packet of
        Inr (opcode, filename, mode) \<Rightarrow> Session opcode filename mode
      | Inl (UnknownModeException msg) \<Rightarrow>
          (case reply_error client_address sock ACCESS_VIOLATION msg of (sock', res) \<Rightarrow> Reply sock' res)
      | Inl (EmptyPathException msg) \<Rightarrow>
          (case reply_error client_address sock FILE_NOT_FOUND msg of (sock', res) \<Rightarrow> Reply sock' res)
      | Inl (IllegalOperationException msg) \<Rightarrow>
          (case reply_error client_address sock ILLEGAL_OPERATION msg of (sock', res) \<Rightarrow> Reply sock' res)
      | Inl (UnknownOpcodeException msg) \<Rightarrow>
          (case reply_error client_address sock ILLEGAL_OPERATION msg of (sock', res) \<Rightarrow> Reply sock' res)
      | Inl ex \<Rightarrow> Reply sock (Raised ex))"

definition handle ::
  "(nat \<Rightarrow> pystr) \<Rightarrow> (pystr \<Rightarrow> exn + bytes) \<Rightarrow> address \<Rightarrow> bytes \<Rightarrow> socket
     \<Rightarrow> (socket \<times> outcome) option"
where
  "handle U get client_address packet sock =
     (case decode_request U client_address packet sock of
        Reply sock' res \<Rightarrow> Some (sock', res)
      | Session opcode filename mode \<Rightarrow>
          if opcode = RRQ then handleRRQ get client_address sock filename mode
          else handleWRQ client_address sock filename mode)"

section \<open>Inputs named in the statements\<close>

text \<open>The exception of \<^verbatim>\<open>unpackOpcode\<close> for the number \<open>c\<close>.\<close>

definition unknown_opcode :: "nat \<Rightarrow> exn" where
  "unknown_opcode c = UnknownOpcodeException (str ''Unknown Opcode '' @ quoted (format_nat c))"

text \<open>The message of \<^verbatim>\<open>unpackACK\<close> for a packet whose opcode is ERROR.\<close>

definition expected_ack_got_error :: pystr where
  "expected_ack_got_error = str ''Expected ACK packet, but got '' @ quoted (str ''ERROR'')"

text \<open>Two endpoints, and an upper-case table that leaves the code points above 127 alone.\<close>

definition client :: address where
  "client = (''192.0.2.1'', 40000)"


definition upper_same :: "nat \<Rightarrow> pystr" where
  "upper_same c = [c]"

text \<open>
  The read request for the file \<^verbatim>\<open>f\<close> in mode \<^verbatim>\<open>octet\<close>, as it is on the wire, and a
  storage that holds 600 bytes under every name.
\<close>

definition read_f_octet :: bytes where
  "read_f_octet = [0, 1, 102, 0, 111, 99, 116, 101, 116, 0]"

definition store_600 :: "pystr \<Rightarrow> exn + bytes" where
  "store_600 name = Inr (replicate 600 7)"

section \<open>Facts about the codec\<close>

lemma Opcodes_cases:
  "(Opcodes c = None) = (c \<noteq> 1 \<and> c \<noteq> 2 \<and> c \<noteq> 3 \<and> c \<noteq> 4 \<and> c \<noteq> 5)"
  unfolding Opcodes_def by simp

lemma Opcodes_None: "(Opcodes c = None) = (\<not> (1 \<le> c \<and> c \<le> 5))"
  unfolding Opcodes_cases by arith

text \<open>The decoders read the wire format of Data and Ack packets.\<close>

lemma unpackDATA_wire:
  "unpackDATA ([0, 3, hi, lo] @ payload) = Inr (DATA, 256 * unat hi + unat lo, payload)"
  by (simp add: unpackDATA_def unpackOpcode_def from_bytes_big_def Opcodes_def DATA_def)

lemma unpackACK_wire:
  "unpackACK [0, 4, hi, lo] = Inr (ACK, 256 * unat hi + unat lo)"
  by (simp add: unpackACK_def unpackOpcode_def from_bytes_big_def Opcodes_def ACK_def)

lemma reply_error_ascii:
  assumes "Errors code \<noteq> None" and "code < 65536" and "list_all (\<lambda>c. c < 128) msg"
  shows "reply_error address sock code msg =
           (sock\<lparr>outbox := outbox sock @
              [([0, 5, of_nat (code div 256), of_nat (code mod 256)] @ map of_nat msg @ [0],
                address)]\<rparr>,
            Returned)"
  using assms
  by (simp add: reply_error_def packERROR_def to_bytes_2_big_def ERROR_def encode_ascii_def
        sendError_def sendto_def)

lemma unpackRWRQ_empty_msg:
  assumes "unpackRWRQ U packet = Inl (EmptyPathException msg)"
  shows "msg = str ''Filename cannot be empty''"
proof (cases "unpackOpcode packet")
  case (Inl ex)
  with assms show ?thesis
    by (auto simp add: unpackRWRQ_def unpackOpcode_def Let_def split: if_splits)
next
  case (Inr opcode)
  with assms show ?thesis
    by (auto simp add: unpackRWRQ_def decode_utf8_def Let_def
          split: sum.splits if_splits option.splits)
qed

lemma unpackRWRQ_foo:
  "unpackRWRQ upper_same [0, 1, 97, 0, 102, 111, 111, 0]
     = Inl (UnknownModeException (str ''Mode '' @ quoted (str ''foo'') @ str '' not recognized''))"
  by (simp add: unpackRWRQ_def unpackOpcode_def from_bytes_big_def Opcodes_def RRQ_def WRQ_def
        find0_def py_slice_def clamp_index_def decode_utf8_def upper_def upper_cp_def
        upper_same_def Modes_def str_def quoted_def Let_def)

lemma unpackRWRQ_no_name:
  "unpackRWRQ upper_same [0, 1, 0, 102, 111, 111, 0]
     = Inl (EmptyPathException (str ''Filename cannot be empty''))"
  by (simp add: unpackRWRQ_def unpackOpcode_def from_bytes_big_def Opcodes_def RRQ_def WRQ_def
        find0_def py_slice_def clamp_index_def decode_utf8_def upper_def upper_cp_def
        upper_same_def Modes_def str_def quoted_def Let_def)

lemma unpackRWRQ_read_f_octet:
  "unpackRWRQ upper_same read_f_octet = Inr (RRQ, str ''f'', str ''OCTET'')"
  by (simp add: unpackRWRQ_def unpackOpcode_def from_bytes_big_def Opcodes_def RRQ_def WRQ_def
        find0_def py_slice_def clamp_index_def decode_utf8_def upper_def upper_cp_def
        upper_same_def Modes_def str_def read_f_octet_def Let_def)

section \<open>Facts about the read session\<close>

text \<open>
  A pass through the loop that has a block to send ends in AttributeError with nothing
  sent: \<^verbatim>\<open>sendData\<close> calls \<^verbatim>\<open>packDATA\<close>. The first pass of every session is such a pass,
  so a session whose file is found ends there, with the socket as it was.
\<close>

lemma iteration_sending:
  assumes "ackBlock st = dataBlock st \<or> sendDATA st"
  shows "iteration address file st sock = Stop sock (Raised AttributeError)"
  using assms
  by (auto simp add: iteration_def new_block_def send_block_def sendData_def packDATA_def
        except_socket_Timeout_def Let_def)

lemma rrq_loop_sending:
  assumes "ackBlock st = dataBlock st \<or> sendDATA st"
  shows "rrq_loop address file st sock = Some (sock, Raised AttributeError)"
  by (subst rrq_loop.simps) (simp add: iteration_sending [OF assms])

lemma handleRRQ_found:
  assumes "get filename = Inr file"
  shows "handleRRQ get address sock filename mode = Some (sock, Raised AttributeError)"
  by (simp add: handleRRQ_def assms rrq_loop_sending initial_def)

lemma handle_read_found:
  assumes "unpackRWRQ U packet = Inr (RRQ, filename, mode)"
    and "get filename = Inr file"
  shows "handle U get client_address packet sock = Some (sock, Raised AttributeError)"
  by (simp add: handle_def decode_request_def assms(1)
        handleRRQ_found [where get = get and filename = filename, OF assms(2)])

lemma handle_read_600:
  "handle upper_same store_600 client read_f_octet sock = Some (sock, Raised AttributeError)"
  by (rule handle_read_found [OF unpackRWRQ_read_f_octet]) (simp add: store_600_def)

text \<open>
  No run of \<^verbatim>\<open>handleRRQ\<close> takes anything from the socket: the call of \<^verbatim>\<open>recv\<close> is never
  reached.
\<close>

lemma reply_error_inbox:
  assumes "reply_error address sock code msg = (sock', res)"
  shows "inbox sock' = inbox sock"
  using assms
  by (auto simp add: reply_error_def sendError_def sendto_def split: sum.splits)

lemma handleRRQ_leaves_inbox:
  assumes "handleRRQ get address sock filename mode = Some (sock', res)"
  shows "inbox sock' = inbox sock"
proof (cases "get filename")
  case (Inr contents)
  from assms handleRRQ_found [where get = get and filename = filename, OF Inr]
  show ?thesis by simp
next
  case (Inl ex)
  with assms show ?thesis
    by (cases ex) (auto simp add: handleRRQ_def dest: reply_error_inbox)
qed






subsection \<open>The wait for an Ack as it is written\<close>

text \<open>
  The block of lines 222 to 256 runs only with \<^verbatim>\<open>readACK\<close> set, which no run achieves.
  As it is written: a timeout of \<^verbatim>\<open>recv\<close> ends in AttributeError instead of setting the
  flags for another send; an Ack of another block changes nothing; a packet whose opcode
  is ERROR is answered with an Error packet of code 4 and a return.
\<close>

lemma unpackOpcode_take: "unpackOpcode (take 1024 payload) = unpackOpcode payload"
  by (simp add: unpackOpcode_def)

lemma unpackACK_error:
  assumes "unpackOpcode packet = Inr ERROR"
  shows "unpackACK packet = Inl (IllegalOperationException expected_ack_got_error)"
  by (simp add: unpackACK_def assms ERROR_def ACK_def Opcodes_item_def Opcodes_def
        expected_ack_got_error_def)

lemma packERROR_expected_ack:
  "packERROR ILLEGAL_OPERATION expected_ack_got_error
     = Inr ([0, 5, 0, 4] @ map of_nat expected_ack_got_error @ [0])"
  by (simp add: packERROR_def ILLEGAL_OPERATION_def ERROR_def Errors_def to_bytes_2_big_def
        encode_ascii_def str_def quoted_def expected_ack_got_error_def)

lemma wait_ack_timeout:
  assumes "readACK st" and "inbox sock = TimedOut # evs"
  shows "wait_ack address st sock = Stop (sock\<lparr>inbox := evs\<rparr>) (Raised AttributeError)"
  using assms by (simp add: wait_ack_def recv_def except_socket_Timeout_def)

lemma wait_ack_other_block:
  assumes "readACK st" and "inbox sock = Datagram src payload # evs"
    and "unpackACK (take 1024 payload) = Inr (ACK, block)"
    and "int block \<noteq> dataBlock st"
  shows "wait_ack address st sock = Next st (sock\<lparr>inbox := evs\<rparr>)"
  using assms by (simp add: wait_ack_def recv_def)

lemma wait_ack_error_opcode:
  assumes "readACK st" and "inbox sock = Datagram src payload # evs"
    and "unpackOpcode payload = Inr ERROR"
  shows "wait_ack address st sock =
           Stop (sock\<lparr>inbox := evs,
                      outbox := outbox sock @
                        [([0, 5, 0, 4] @ map of_nat expected_ack_got_error @ [0], address)]\<rparr>)
                Returned"
proof -
  have "unpackACK (take 1024 payload) = Inl (IllegalOperationException expected_ack_got_error)"
    by (rule unpackACK_error) (simp add: unpackOpcode_take assms(3))
  then show ?thesis
    using assms(1, 2)
    by (simp add: wait_ack_def recv_def packERROR_expected_ack sendError_def sendto_def)
qed

section \<open>The claims\<close>

subsection \<open>The codec\<close>

text \<open>
  Claim C1 (round trip of the codec: decoding the encoding of a packet gives the packet
  back). The encoders do not return: at the Data packet with block 1 and an empty payload
  \<^verbatim>\<open>packDATA\<close> raises AttributeError, and at the Ack of block 1 \<^verbatim>\<open>packACK\<close> raises
  NameError, so there is no encoding to decode. The decoders do read the wire form of
  these two packets.
\<close>

theorem encoders_raise:
  "packDATA (PBytes []) (PInt 1) = Inl AttributeError
   \<and> packACK (PInt 1) = Inl NameError
   \<and> unpackDATA [0, 3, 0, 1] = Inr (DATA, 1, [])
   \<and> unpackACK [0, 4, 0, 1] = Inr (ACK, 1)"
  by (simp add: packDATA_def packACK_def unpackDATA_def unpackACK_def unpackOpcode_def
        from_bytes_big_def Opcodes_def DATA_def ACK_def)

text \<open>
  Claim C7 (an input shorter than 2 bytes is rejected as malformed), as the code has it:
  \<^verbatim>\<open>unpackOpcode\<close> reads the bytes that are there as a big-endian number. The empty input
  and a single byte outside 1..5 raise UnknownOpcodeException; a single byte in 1..5 is
  returned as the opcode. MalformedPacketException is not among the results.
\<close>

theorem unpackOpcode_short:
  assumes "length packet < 2"
  shows "unpackOpcode packet =
           (case packet of
              [] \<Rightarrow> Inl (unknown_opcode 0)
            | b # rest \<Rightarrow>
                if 1 \<le> unat b \<and> unat b \<le> 5 then Inr (unat b)
                else Inl (unknown_opcode (unat b)))"
proof (cases packet)
  case Nil
  then show ?thesis
    by (simp add: unpackOpcode_def from_bytes_big_def Opcodes_None unknown_opcode_def)
next
  case (Cons b rest)
  with assms have r: "rest = []" by simp
  show ?thesis
    unfolding Cons r
    by (simp add: unpackOpcode_def from_bytes_big_def Opcodes_None unknown_opcode_def)
qed

theorem unpackOpcode_short_witness:
  "length [4 :: byte] < 2 \<and> unpackOpcode [4] = Inr 4
   \<and> length [9 :: byte] < 2 \<and> unpackOpcode [9] = Inl (unknown_opcode 9)
   \<and> length ([] :: bytes) < 2 \<and> unpackOpcode [] = Inl (unknown_opcode 0)"
  using unpackOpcode_short [of "[4]"] unpackOpcode_short [of "[9]"] unpackOpcode_short [of "[]"]
  by simp

text \<open>
  Claim C7 as stated fails at the one-byte input 03: \<^verbatim>\<open>unpackOpcode\<close> returns opcode 3
  and \<^verbatim>\<open>unpackDATA\<close> returns a Data tuple with block 0 and no payload.
\<close>

theorem short_input_accepted:
  "length [3 :: byte] < 2 \<and> unpackOpcode [3] = Inr 3 \<and> unpackDATA [3] = Inr (3, 0, [])"
  by (simp add: unpackDATA_def unpackOpcode_def from_bytes_big_def Opcodes_def DATA_def)

text \<open>
  Claim C10: a packet whose opcode is DATA, ACK or ERROR makes \<^verbatim>\<open>unpackRWRQ\<close> raise: the
  rejection branch is taken, and what leaves the function is the NameError raised while
  the message is built. No tuple is returned.
\<close>

theorem unpackRWRQ_rejects:
  assumes "unpackOpcode packet = Inr c"
    and "c = DATA \<or> c = ACK \<or> c = ERROR"
  shows "unpackRWRQ U packet = Inl NameError"
  using assms
  by (auto simp add: unpackRWRQ_def RRQ_def WRQ_def DATA_def ACK_def ERROR_def)

theorem unpackRWRQ_rejects_witness:
  "unpackOpcode [0, 4, 0, 1] = Inr ACK \<and> unpackRWRQ upper_same [0, 4, 0, 1] = Inl NameError"
proof -
  have h: "unpackOpcode [0, 4, 0, 1] = Inr ACK"
    by (simp add: unpackOpcode_def from_bytes_big_def Opcodes_def ACK_def)
  have "ACK = DATA \<or> ACK = ACK \<or> ACK = ERROR" by simp
  from unpackRWRQ_rejects [OF h this] h show ?thesis by simp
qed

subsection \<open>The request handler\<close>

text \<open>
  Claim C8 (a request that fails to decode with an unknown mode or an empty file name is
  answered with one Error packet of code FileNotFound, and no session starts), as the code
  has it: the empty file name is answered with one Error packet of code 1 (FileNotFound)
  sent to the client; the unknown mode is answered with one Error packet of code 2
  (AccessViolation) sent to the client, when the message, which quotes the mode, is
  ASCII. In both cases \<^verbatim>\<open>Handler.handle\<close> returns there, with that one datagram sent, and
  goes on to no session.
\<close>

theorem request_decode_errors:
  "(unpackRWRQ U packet = Inl (EmptyPathException msg) \<longrightarrow>
      decode_request U client_address packet sock =
        Reply (sock\<lparr>outbox := outbox sock @
                 [([0, 5, 0, 1] @ map of_nat (str ''Filename cannot be empty'') @ [0],
                   client_address)]\<rparr>)
              Returned
      \<and> handle U get client_address packet sock =
        Some (sock\<lparr>outbox := outbox sock @
                 [([0, 5, 0, 1] @ map of_nat (str ''Filename cannot be empty'') @ [0],
                   client_address)]\<rparr>,
              Returned))
   \<and> (unpackRWRQ U packet = Inl (UnknownModeException msg) \<and> list_all (\<lambda>c. c < 128) msg \<longrightarrow>
      decode_request U client_address packet sock =
        Reply (sock\<lparr>outbox := outbox sock @ [([0, 5, 0, 2] @ map of_nat msg @ [0], client_address)]\<rparr>)
              Returned
      \<and> handle U get client_address packet sock =
        Some (sock\<lparr>outbox := outbox sock @ [([0, 5, 0, 2] @ map of_nat msg @ [0], client_address)]\<rparr>,
              Returned))"
proof (intro conjI impI)
  assume a: "unpackRWRQ U packet = Inl (EmptyPathException msg)"
  have m: "msg = str ''Filename cannot be empty''"
    using a by (rule unpackRWRQ_empty_msg)
  have "list_all (\<lambda>c. c < 128) (str ''Filename cannot be empty'')"
    by (simp add: str_def)
  then have "reply_error client_address sock FILE_NOT_FOUND (str ''Filename cannot be empty'') =
      (sock\<lparr>outbox := outbox sock @
          [([0, 5, 0, 1] @ map of_nat (str ''Filename cannot be empty'') @ [0], client_address)]\<rparr>,
       Returned)"
    by (simp add: reply_error_ascii FILE_NOT_FOUND_def Errors_def)
  then show d: "decode_request U client_address packet sock =
        Reply (sock\<lparr>outbox := outbox sock @
                 [([0, 5, 0, 1] @ map of_nat (str ''Filename cannot be empty'') @ [0],
                   client_address)]\<rparr>)
              Returned"
    using a m by (simp add: decode_request_def)
  show "handle U get client_address packet sock =
        Some (sock\<lparr>outbox := outbox sock @
                 [([0, 5, 0, 1] @ map of_nat (str ''Filename cannot be empty'') @ [0],
                   client_address)]\<rparr>,
              Returned)"
    by (simp add: handle_def d)
next
  assume "unpackRWRQ U packet = Inl (UnknownModeException msg) \<and> list_all (\<lambda>c. c < 128) msg"
  then have a: "unpackRWRQ U packet = Inl (UnknownModeException msg)"
    and b: "list_all (\<lambda>c. c < 128) msg"
    by simp_all
  have "reply_error client_address sock ACCESS_VIOLATION msg =
      (sock\<lparr>outbox := outbox sock @ [([0, 5, 0, 2] @ map of_nat msg @ [0], client_address)]\<rparr>,
       Returned)"
    using b by (simp add: reply_error_ascii ACCESS_VIOLATION_def Errors_def)
  then show d: "decode_request U client_address packet sock =
        Reply (sock\<lparr>outbox := outbox sock @ [([0, 5, 0, 2] @ map of_nat msg @ [0], client_address)]\<rparr>)
              Returned"
    using a by (simp add: decode_request_def)
  show "handle U get client_address packet sock =
        Some (sock\<lparr>outbox := outbox sock @ [([0, 5, 0, 2] @ map of_nat msg @ [0], client_address)]\<rparr>,
              Returned)"
    by (simp add: handle_def d)
qed

theorem request_decode_errors_witness:
  "unpackRWRQ upper_same [0, 1, 0, 102, 111, 111, 0]
     = Inl (EmptyPathException (str ''Filename cannot be empty''))
   \<and> decode_request upper_same client [0, 1, 0, 102, 111, 111, 0] \<lparr>inbox = [], outbox = []\<rparr>
     = Reply \<lparr>inbox = [],
              outbox = [([0, 5, 0, 1] @ map of_nat (str ''Filename cannot be empty'') @ [0],
                         client)]\<rparr>
             Returned
   \<and> unpackRWRQ upper_same [0, 1, 97, 0, 102, 111, 111, 0]
     = Inl (UnknownModeException (str ''Mode '' @ quoted (str ''foo'') @ str '' not recognized''))
   \<and> list_all (\<lambda>c. c < 128) (str ''Mode '' @ quoted (str ''foo'') @ str '' not recognized'')
   \<and> decode_request upper_same client [0, 1, 97, 0, 102, 111, 111, 0] \<lparr>inbox = [], outbox = []\<rparr>
     = Reply \<lparr>inbox = [],
              outbox = [([0, 5, 0, 2]
                           @ map of_nat (str ''Mode '' @ quoted (str ''foo'') @ str '' not recognized'')
                           @ [0], client)]\<rparr>
             Returned"
proof -
  have l: "list_all (\<lambda>c. c < 128) (str ''Mode '' @ quoted (str ''foo'') @ str '' not recognized'')"
    by (simp add: str_def quoted_def)
  have e: "decode_request upper_same client [0, 1, 0, 102, 111, 111, 0] \<lparr>inbox = [], outbox = []\<rparr>
     = Reply \<lparr>inbox = [],
              outbox = [([0, 5, 0, 1] @ map of_nat (str ''Filename cannot be empty'') @ [0],
                         client)]\<rparr>
             Returned"
    using request_decode_errors
            [where U = upper_same and packet = "[0, 1, 0, 102, 111, 111, 0]"
               and msg = "str ''Filename cannot be empty''" and client_address = client
               and sock = "\<lparr>inbox = [], outbox = []\<rparr>" and get = "\<lambda>name. Inr []"]
          unpackRWRQ_no_name
    by simp
  have m: "decode_request upper_same client [0, 1, 97, 0, 102, 111, 111, 0] \<lparr>inbox = [], outbox = []\<rparr>
     = Reply \<lparr>inbox = [],
              outbox = [([0, 5, 0, 2]
                           @ map of_nat (str ''Mode '' @ quoted (str ''foo'') @ str '' not recognized'')
                           @ [0], client)]\<rparr>
             Returned"
    using request_decode_errors
            [where U = upper_same and packet = "[0, 1, 97, 0, 102, 111, 111, 0]"
               and msg = "str ''Mode '' @ quoted (str ''foo'') @ str '' not recognized''"
               and client_address = client
               and sock = "\<lparr>inbox = [], outbox = []\<rparr>" and get = "\<lambda>name. Inr []"]
          unpackRWRQ_foo l
    by simp
  from e m l unpackRWRQ_no_name unpackRWRQ_foo show ?thesis by simp
qed

text \<open>
  Claim C8 as stated fails at the read request for file \<^verbatim>\<open>a\<close> in mode \<^verbatim>\<open>foo\<close>: decoding
  fails with UnknownModeException, and the Error packet sent carries code 2, not code 1.
\<close>

theorem unknown_mode_answered_with_code_2:
  "unpackRWRQ upper_same [0, 1, 97, 0, 102, 111, 111, 0]
     = Inl (UnknownModeException (str ''Mode '' @ quoted (str ''foo'') @ str '' not recognized''))
   \<and> decode_request upper_same client [0, 1, 97, 0, 102, 111, 111, 0] \<lparr>inbox = [], outbox = []\<rparr>
     = Reply \<lparr>inbox = [],
              outbox = [([0, 5, 0, 2]
                           @ map of_nat (str ''Mode '' @ quoted (str ''foo'') @ str '' not recognized'')
                           @ [0], client)]\<rparr>
             Returned"
  by (simp add: decode_request_def unpackRWRQ_foo reply_error_ascii ACCESS_VIOLATION_def
        Errors_def str_def quoted_def)

subsection \<open>The read session\<close>

text \<open>
  Claim C2 (a file of 100 bytes is sent as one Data block, number 1, with all 100 bytes,
  and the session completes after Ack 1). With a file of 100 bytes and Ack 1 ready to be
  received, \<^verbatim>\<open>handleRRQ\<close> ends in AttributeError at its first \<^verbatim>\<open>sendData\<close>: nothing is
  sent and the Ack is never read. The block prepared for sending holds 99 bytes, since
  the slice \<^verbatim>\<open>file[0:-1]\<close> leaves the last byte out.
\<close>

theorem read_100_bytes_sends_nothing:
  "handleRRQ (\<lambda>name. Inr (replicate 100 7)) client
       \<lparr>inbox = [Datagram client [0, 4, 0, 1]], outbox = []\<rparr> (str ''f'') (str ''OCTET'')
     = Some (\<lparr>inbox = [Datagram client [0, 4, 0, 1]], outbox = []\<rparr>, Raised AttributeError)
   \<and> data (new_block (replicate 100 7) initial) = PBytes (replicate 99 7)"
  by (simp add: handleRRQ_found new_block_def initial_def py_slice_def clamp_index_def Let_def)

text \<open>
  Claim C6 (a file of 1024 bytes is sent as blocks 1 and 2 of 512 bytes and block 3 of 0
  bytes, and the session completes after Ack 3). With a file of 1024 bytes and the three
  Acks ready to be received, \<^verbatim>\<open>handleRRQ\<close> ends in AttributeError at its first
  \<^verbatim>\<open>sendData\<close>: nothing is sent and no Ack is read.
\<close>

theorem read_1024_bytes_sends_nothing:
  "handleRRQ (\<lambda>name. Inr (replicate 1024 7)) client
       \<lparr>inbox = [Datagram client [0, 4, 0, 1], Datagram client [0, 4, 0, 2],
                 Datagram client [0, 4, 0, 3]],
        outbox = []\<rparr> (str ''f'') (str ''OCTET'')
     = Some (\<lparr>inbox = [Datagram client [0, 4, 0, 1], Datagram client [0, 4, 0, 2],
                       Datagram client [0, 4, 0, 3]],
              outbox = []\<rparr>,
             Raised AttributeError)"
  by (simp add: handleRRQ_found)

text \<open>
  Claim C3 (with three retries left and four timeouts in a row, the block is sent again
  exactly three times, then the session aborts on timeout). For the read request of a
  file of 600 bytes followed by four timeouts, the handler ends in AttributeError at its
  first \<^verbatim>\<open>sendData\<close>: the block is sent neither a first time nor again, and no timeout is
  waited for.
\<close>

theorem four_timeouts_nothing_sent:
  "handle upper_same store_600 client read_f_octet
       \<lparr>inbox = [TimedOut, TimedOut, TimedOut, TimedOut], outbox = []\<rparr>
     = Some (\<lparr>inbox = [TimedOut, TimedOut, TimedOut, TimedOut], outbox = []\<rparr>,
             Raised AttributeError)"
  by (rule handle_read_600)

text \<open>
  Claim C9 (a session that waits for the Ack of block n and receives an Ack of another
  block changes nothing and keeps waiting). For the read request of a file of 600 bytes
  followed by Ack 1 and a second Ack 1, which would meet a session that waits for Ack 2,
  the handler ends in AttributeError at its first \<^verbatim>\<open>sendData\<close>: no block is sent, neither
  Ack is read, and no session is left to wait.
\<close>

theorem stale_ack_never_read:
  "handle upper_same store_600 client read_f_octet
       \<lparr>inbox = [Datagram client [0, 4, 0, 1], Datagram client [0, 4, 0, 1]], outbox = []\<rparr>
     = Some (\<lparr>inbox = [Datagram client [0, 4, 0, 1], Datagram client [0, 4, 0, 1]],
              outbox = []\<rparr>,
             Raised AttributeError)"
  by (rule handle_read_600)




end
